theory Spec2Isabelle
  imports Complex_Main
begin

section \<open>Tables\<close>

text \<open>
  A pandas timestamp is kept as its calendar fields; comparison is lexicographic on
  them, and \<open>.year\<close> reads the first field.
\<close>

record timestamp =
  year :: nat
  month :: nat
  day :: nat
  hour :: nat
  minute :: nat
  second :: nat
  nanos :: nat

text \<open>
  A cell of a column: missing (\<open>NaN\<close>, \<open>None\<close>, \<open>NaT\<close>), a number, a string or a
  timestamp. Floating-point numbers are modelled by exact rationals: rounding of the
  binary representation is not part of the model.
\<close>

datatype cell = Null | Num rat | Str string | Time timestamp

record column =
  cname :: string
  dtype :: string
  cells :: "cell list"

record dataframe =
  nrows :: nat
  columns :: "column list"

datatype error = KeyError | TypeError | ValueError | AttributeError | Unsupported

text \<open>What the audit reads from its surroundings: the clock and the date parser of pandas.\<close>

record env =
  now :: timestamp
  current_year :: nat
  parse_datetime :: "cell \<Rightarrow> timestamp option option"

definition datetime_dtype :: string where
  "datetime_dtype = ''datetime64[ns]''"

fun is_time_or_null :: "cell \<Rightarrow> bool" where
  "is_time_or_null Null = True"
| "is_time_or_null (Time t) = True"
| "is_time_or_null c = False"

text \<open>
  The invariants of a pandas frame: every column has one cell per row, labels are not
  repeated, and a column whose dtype is \<open>datetime64[ns]\<close> holds timestamps only.
\<close>

definition wf_table :: "dataframe \<Rightarrow> bool" where
  "wf_table df \<longleftrightarrow>
     distinct (map cname (columns df)) \<and>
     list_all (\<lambda>c. length (cells c) = nrows df) (columns df) \<and>
     list_all (\<lambda>c. dtype c = datetime_dtype \<longrightarrow> list_all is_time_or_null (cells c)) (columns df)"

definition df_empty :: "dataframe \<Rightarrow> bool" where
  "df_empty df \<longleftrightarrow> nrows df = 0 \<or> columns df = []"

definition get_column :: "dataframe \<Rightarrow> string \<Rightarrow> column option" where
  "get_column df name = find (\<lambda>c. cname c = name) (columns df)"

section \<open>Series operations\<close>

definition isnull :: "cell list \<Rightarrow> bool list" where
  "isnull cs = map (\<lambda>c. c = Null) cs"

definition sum_bool :: "bool list \<Rightarrow> nat" where
  "sum_bool bs = length (filter (\<lambda>b. b) bs)"

definition nunique :: "cell list \<Rightarrow> nat" where
  "nunique cs = length (remdups (filter (\<lambda>c. c \<noteq> Null) cs))"

fun duplicated_from :: "cell list \<Rightarrow> cell list \<Rightarrow> bool list" where
  "duplicated_from seen [] = []"
| "duplicated_from seen (x # xs) = (x \<in> set seen) # duplicated_from (x # seen) xs"

definition duplicated :: "cell list \<Rightarrow> bool list" where
  "duplicated cs = duplicated_from [] cs"

fun traverse :: "('a \<Rightarrow> error + 'b) \<Rightarrow> 'a list \<Rightarrow> error + 'b list" where
  "traverse f [] = Inr []"
| "traverse f (x # xs) =
     (case f x of Inl e \<Rightarrow> Inl e
      | Inr y \<Rightarrow> (case traverse f xs of Inl e \<Rightarrow> Inl e | Inr ys \<Rightarrow> Inr (y # ys)))"

fun to_datetime_cell :: "env \<Rightarrow> cell \<Rightarrow> error + timestamp option" where
  "to_datetime_cell ev Null = Inr None"
| "to_datetime_cell ev (Time t) = Inr (Some t)"
| "to_datetime_cell ev c =
     (case parse_datetime ev c of None \<Rightarrow> Inl ValueError | Some r \<Rightarrow> Inr r)"

definition to_datetime :: "env \<Rightarrow> cell list \<Rightarrow> error + timestamp option list" where
  "to_datetime ev cs = traverse (to_datetime_cell ev) cs"

fun lex_less :: "nat list \<Rightarrow> nat list \<Rightarrow> bool" where
  "lex_less (x # xs) (y # ys) = (x < y \<or> (x = y \<and> lex_less xs ys))"
| "lex_less xs ys = False"

definition ts_fields :: "timestamp \<Rightarrow> nat list" where
  "ts_fields t = [year t, month t, day t, hour t, minute t, second t, nanos t]"

definition ts_less :: "timestamp \<Rightarrow> timestamp \<Rightarrow> bool" where
  "ts_less a b = lex_less (ts_fields a) (ts_fields b)"

fun max_step :: "timestamp option \<Rightarrow> timestamp option \<Rightarrow> timestamp option" where
  "max_step acc None = acc"
| "max_step None (Some t) = Some t"
| "max_step (Some m) (Some t) = Some (if ts_less m t then t else m)"

definition series_max :: "timestamp option list \<Rightarrow> timestamp option" where
  "series_max ts = foldl max_step None ts"

fun gt_ts :: "timestamp \<Rightarrow> timestamp option \<Rightarrow> bool" where
  "gt_ts n None = False"
| "gt_ts n (Some t) = ts_less n t"

fun cell_gt :: "rat \<Rightarrow> cell \<Rightarrow> error + bool" where
  "cell_gt n Null = Inr False"
| "cell_gt n (Num v) = Inr (n < v)"
| "cell_gt n c = Inl TypeError"

fun cell_lt :: "rat \<Rightarrow> cell \<Rightarrow> error + bool" where
  "cell_lt n Null = Inr False"
| "cell_lt n (Num v) = Inr (v < n)"
| "cell_lt n c = Inl TypeError"

fun cell_ge :: "rat \<Rightarrow> cell \<Rightarrow> error + bool" where
  "cell_ge n Null = Inr False"
| "cell_ge n (Num v) = Inr (n \<le> v)"
| "cell_ge n c = Inl TypeError"

section \<open>Formatting\<close>

definition digit :: "nat \<Rightarrow> char" where
  "digit d = ''0123456789'' ! d"

fun show_nat :: "nat \<Rightarrow> string" where
  "show_nat n = (if n < 10 then [digit n] else show_nat (n div 10) @ [digit (n mod 10)])"

definition pad2 :: "nat \<Rightarrow> string" where
  "pad2 n = (if n < 10 then CHR ''0'' # show_nat n else show_nat n)"

definition pad3 :: "nat \<Rightarrow> string" where
  "pad3 n = (if n < 10 then ''00'' @ show_nat n else if n < 100 then CHR ''0'' # show_nat n
             else show_nat n)"

text \<open>The format \<open>{:,}\<close>: decimal digits in groups of three.\<close>

fun fmt_commas :: "nat \<Rightarrow> string" where
  "fmt_commas n = (if n < 1000 then show_nat n
                   else fmt_commas (n div 1000) @ '','' @ pad3 (n mod 1000))"

text \<open>The format \<open>{:.2f}\<close>: two decimals, ties to even.\<close>

definition round_half_even :: "rat \<Rightarrow> nat" where
  "round_half_even x =
     (let fl = nat \<lfloor>x\<rfloor>; fr = x - of_int \<lfloor>x\<rfloor>
      in if 1 / 2 < fr then fl + 1 else if fr < 1 / 2 then fl
         else if even fl then fl else fl + 1)"

definition fmt_2f :: "rat \<Rightarrow> string" where
  "fmt_2f x =
     (let r = round_half_even (\<bar>x\<bar> * 100)
      in (if x < 0 then ''-'' else '''') @ show_nat (r div 100) @ ''.'' @ pad2 (r mod 100))"

definition strftime :: "timestamp \<Rightarrow> string" where
  "strftime t = show_nat (year t) @ ''-'' @ pad2 (month t) @ ''-'' @ pad2 (day t) @ '' '' @
                pad2 (hour t) @ '':'' @ pad2 (minute t) @ '':'' @ pad2 (second t)"

definition quoted :: "string \<Rightarrow> string" where
  "quoted s = [CHR 0x27] @ s @ [CHR 0x27]"

section \<open>The audit\<close>

record col_stat =
  stat_column :: string
  stat_type :: string
  stat_missing :: string
  stat_unique :: string
  stat_status :: string

record results =
  column_stats :: "col_stat list"
  scores :: "string \<rightharpoonup> rat"
  summary :: "string list"
  latest_date :: string
  health_score :: "rat option"

definition crash_date :: string where
  "crash_date = ''Crash Date/Time''"

definition vehicle_year :: string where
  "vehicle_year = ''Vehicle Year''"

definition speed_limit :: string where
  "speed_limit = ''Speed Limit''"

definition primary_key :: string where
  "primary_key = ''Report Number''"

definition key_fields :: "string list" where
  "key_fields = [''Report Number'', ''Local Case Number'', ''Agency Name'', ''Crash Date/Time'']"

subsection \<open>Timeliness\<close>

text \<open>
  The latest timestamp of the column, formatted; \<open>NaT.strftime\<close> raises when the column
  has no timestamp at all.
\<close>

definition timeliness_check :: "env \<Rightarrow> dataframe \<Rightarrow> results \<Rightarrow> error + results" where
  "timeliness_check ev df res =
     (case get_column df crash_date of
        None \<Rightarrow> Inr res
      | Some c \<Rightarrow>
          (case to_datetime ev (cells c) of
             Inl e \<Rightarrow> Inl e
           | Inr ts \<Rightarrow>
               (case series_max ts of
                  None \<Rightarrow> Inl ValueError
                | Some latest \<Rightarrow> Inr (res\<lparr>latest_date := strftime latest\<rparr>))))"

subsection \<open>The loop over the columns\<close>

definition missing_pct :: "nat \<Rightarrow> column \<Rightarrow> rat" where
  "missing_pct total_rows col = (of_nat (sum_bool (isnull (cells col))) / of_nat total_rows) * 100"

definition critical_msg :: "string \<Rightarrow> rat \<Rightarrow> string" where
  "critical_msg name pct =
     ''Key field '' @ quoted name @ '' exceeds 1% missing threshold ('' @ fmt_2f pct @ ''%).''"

definition audit_column ::
    "nat \<Rightarrow> results \<times> rat list \<Rightarrow> column \<Rightarrow> results \<times> rat list" where
  "audit_column total_rows st col =
     (let (res, completeness_metrics) = st;
          pct = missing_pct total_rows col;
          unique_vals = nunique (cells col);
          critical = (cname col \<in> set key_fields \<and> 1 < pct);
          status = (if critical then ''Critical'' else if 10 < pct then ''Warning'' else ''Valid'');
          res1 = (if critical then res\<lparr>summary := summary res @ [critical_msg (cname col) pct]\<rparr>
                  else res);
          res2 = res1\<lparr>column_stats := column_stats res1 @
                   [\<lparr>stat_column = cname col, stat_type = dtype col,
                     stat_missing = fmt_2f pct @ ''%'', stat_unique = fmt_commas unique_vals,
                     stat_status = status\<rparr>]\<rparr>
      in (res2, completeness_metrics @ [100 - pct]))"

definition audit_loop :: "nat \<Rightarrow> results \<Rightarrow> column list \<Rightarrow> results \<times> rat list" where
  "audit_loop total_rows res cols = foldl (audit_column total_rows) (res, []) cols"

subsection \<open>Consistency\<close>

definition duplicate_msg :: "nat \<Rightarrow> string" where
  "duplicate_msg k = ''Found '' @ fmt_commas k @ '' duplicate IDs based on '' @
                     quoted primary_key @ ''.''"

definition consistency_check :: "dataframe \<Rightarrow> nat \<Rightarrow> results \<Rightarrow> results" where
  "consistency_check df total_rows res =
     (case get_column df primary_key of
        Some c \<Rightarrow>
          (let duplicate_count = sum_bool (duplicated (cells c));
               duplicate_rate = (of_nat duplicate_count / of_nat total_rows) * 100;
               res1 = res\<lparr>scores := (scores res)(''consistency'' \<mapsto> 100 - duplicate_rate)\<rparr>
           in if 0 < duplicate_count
              then res1\<lparr>summary := summary res1 @ [duplicate_msg duplicate_count]\<rparr>
              else res1)
      | None \<Rightarrow> res\<lparr>scores := (scores res)(''consistency'' \<mapsto> 100)\<rparr>)"

subsection \<open>Accuracy\<close>

definition future_msg :: "nat \<Rightarrow> string" where
  "future_msg k = ''Detected '' @ show_nat k @ '' records with crashes in the future.''"

definition years_msg :: "nat \<Rightarrow> nat \<Rightarrow> string" where
  "years_msg k y = ''Detected '' @ show_nat k @ '' vehicles with years beyond '' @ show_nat y @ ''.''"

definition speed_msg :: "nat \<Rightarrow> string" where
  "speed_msg k = ''Detected '' @ show_nat k @ '' negative values in Speed Limit.''"

text \<open>Each check adds its count and one line of summary when the count is positive.\<close>

definition record_issue :: "nat \<Rightarrow> string \<Rightarrow> results \<times> nat \<Rightarrow> results \<times> nat" where
  "record_issue k msg st =
     (let (res, accuracy_issues_count) = st
      in if 0 < k then (res\<lparr>summary := summary res @ [msg]\<rparr>, accuracy_issues_count + k)
         else (res, accuracy_issues_count))"

definition accuracy_future :: "env \<Rightarrow> dataframe \<Rightarrow> results \<times> nat \<Rightarrow> error + results \<times> nat" where
  "accuracy_future ev df st =
     (case get_column df crash_date of
        None \<Rightarrow> Inr st
      | Some c \<Rightarrow>
          (case to_datetime ev (cells c) of
             Inl e \<Rightarrow> Inl e
           | Inr ts \<Rightarrow>
               (let future_dates = sum_bool (map (gt_ts (now ev)) ts)
                in Inr (record_issue future_dates (future_msg future_dates) st))))"

definition accuracy_years :: "env \<Rightarrow> dataframe \<Rightarrow> results \<times> nat \<Rightarrow> error + results \<times> nat" where
  "accuracy_years ev df st =
     (case get_column df vehicle_year of
        None \<Rightarrow> Inr st
      | Some c \<Rightarrow>
          (case traverse (cell_gt (of_nat (current_year ev + 1))) (cells c) of
             Inl e \<Rightarrow> Inl e
           | Inr bs \<Rightarrow>
               (let invalid_years = sum_bool bs
                in Inr (record_issue invalid_years
                          (years_msg invalid_years (current_year ev + 1)) st))))"

definition accuracy_speed :: "dataframe \<Rightarrow> results \<times> nat \<Rightarrow> error + results \<times> nat" where
  "accuracy_speed df st =
     (case get_column df speed_limit of
        None \<Rightarrow> Inr st
      | Some c \<Rightarrow>
          (case traverse (cell_lt 0) (cells c) of
             Inl e \<Rightarrow> Inl e
           | Inr bs \<Rightarrow>
               (let neg_speeds = sum_bool bs
                in Inr (record_issue neg_speeds (speed_msg neg_speeds) st))))"

subsection \<open>The scoreboard\<close>

text \<open>Reading a score that was never stored raises \<open>KeyError\<close>.\<close>

definition get_score :: "results \<Rightarrow> string \<Rightarrow> error + rat" where
  "get_score res k = (case scores res k of Some v \<Rightarrow> Inr v | None \<Rightarrow> Inl KeyError)"

definition finalize :: "nat \<Rightarrow> rat list \<Rightarrow> results \<times> nat \<Rightarrow> error + results" where
  "finalize total_rows completeness_metrics st =
     (let (res, accuracy_issues_count) = st;
          accuracy_rate = (1 - of_nat accuracy_issues_count / of_nat (total_rows * 3)) * 100;
          res1 = res\<lparr>scores := (scores res)(''accuracy'' \<mapsto> max 0 accuracy_rate)\<rparr>;
          res2 = res1\<lparr>scores := (scores res1)(''completeness'' \<mapsto>
                   sum_list completeness_metrics / of_nat (length completeness_metrics))\<rparr>
      in (case get_score res2 ''completeness'' of
            Inl e \<Rightarrow> Inl e
          | Inr completeness \<Rightarrow>
              (case get_score res2 ''consistency'' of
                 Inl e \<Rightarrow> Inl e
               | Inr consistency \<Rightarrow>
                   (case get_score res2 ''accuracy'' of
                      Inl e \<Rightarrow> Inl e
                    | Inr accuracy \<Rightarrow>
                        Inr (res2\<lparr>health_score :=
                               Some ((completeness + consistency + accuracy) / 3)\<rparr>)))))"

definition init_results :: results where
  "init_results = \<lparr>column_stats = [], scores = Map.empty, summary = [],
                    latest_date = ''N/A'', health_score = None\<rparr>"

definition run_audit :: "env \<Rightarrow> dataframe \<Rightarrow> error + results" where
  "run_audit ev df =
     (let total_rows = nrows df
      in if df_empty df then Inr init_results
         else
           (case timeliness_check ev df init_results of
              Inl e \<Rightarrow> Inl e
            | Inr res0 \<Rightarrow>
                (let (res1, completeness_metrics) = audit_loop total_rows res0 (columns df);
                     res2 = consistency_check df total_rows res1
                 in (case accuracy_future ev df (res2, 0) of
                       Inl e \<Rightarrow> Inl e
                     | Inr st1 \<Rightarrow>
                         (case accuracy_years ev df st1 of
                            Inl e \<Rightarrow> Inl e
                          | Inr st2 \<Rightarrow>
                              (case accuracy_speed df st2 of
                                 Inl e \<Rightarrow> Inl e
                               | Inr st3 \<Rightarrow>
                                   finalize total_rows completeness_metrics st3))))))"

section \<open>Specification-level quantities\<close>

definition col_status :: "nat \<Rightarrow> column \<Rightarrow> string" where
  "col_status total_rows c =
     (if cname c \<in> set key_fields \<and> 1 < missing_pct total_rows c then ''Critical''
      else if 10 < missing_pct total_rows c then ''Warning'' else ''Valid'')"

definition col_findings :: "nat \<Rightarrow> column \<Rightarrow> string list" where
  "col_findings total_rows c =
     (if cname c \<in> set key_fields \<and> 1 < missing_pct total_rows c
      then [critical_msg (cname c) (missing_pct total_rows c)] else [])"

definition dup_count :: "dataframe \<Rightarrow> nat" where
  "dup_count df = (case get_column df primary_key of None \<Rightarrow> 0
                   | Some c \<Rightarrow> sum_bool (duplicated (cells c)))"

definition dup_findings :: "dataframe \<Rightarrow> string list" where
  "dup_findings df = (if 0 < dup_count df then [duplicate_msg (dup_count df)] else [])"

definition consistency_score :: "dataframe \<Rightarrow> rat" where
  "consistency_score df =
     (case get_column df primary_key of None \<Rightarrow> 100
      | Some c \<Rightarrow> 100 - of_nat (dup_count df) / of_nat (nrows df) * 100)"

definition is_future :: "env \<Rightarrow> cell \<Rightarrow> bool" where
  "is_future ev c = (case to_datetime_cell ev c of Inr (Some t) \<Rightarrow> ts_less (now ev) t
                     | _ \<Rightarrow> False)"

definition is_invalid_year :: "env \<Rightarrow> cell \<Rightarrow> bool" where
  "is_invalid_year ev c = (case c of Num v \<Rightarrow> of_nat (current_year ev + 1) < v | _ \<Rightarrow> False)"

definition is_negative :: "cell \<Rightarrow> bool" where
  "is_negative c = (case c of Num v \<Rightarrow> v < 0 | _ \<Rightarrow> False)"

definition count_in :: "dataframe \<Rightarrow> string \<Rightarrow> (cell \<Rightarrow> bool) \<Rightarrow> nat" where
  "count_in df name p = (case get_column df name of None \<Rightarrow> 0
                         | Some c \<Rightarrow> length (filter p (cells c)))"

definition future_count :: "env \<Rightarrow> dataframe \<Rightarrow> nat" where
  "future_count ev df = count_in df crash_date (is_future ev)"

definition year_count :: "env \<Rightarrow> dataframe \<Rightarrow> nat" where
  "year_count ev df = count_in df vehicle_year (is_invalid_year ev)"

definition speed_count :: "dataframe \<Rightarrow> nat" where
  "speed_count df = count_in df speed_limit is_negative"

definition issue_finding :: "nat \<Rightarrow> string \<Rightarrow> string list" where
  "issue_finding k msg = (if 0 < k then [msg] else [])"

definition accuracy_issue_total :: "env \<Rightarrow> dataframe \<Rightarrow> nat" where
  "accuracy_issue_total ev df = future_count ev df + year_count ev df + speed_count df"

definition accuracy_score :: "env \<Rightarrow> dataframe \<Rightarrow> rat" where
  "accuracy_score ev df =
     max 0 (100 * (1 - of_nat (accuracy_issue_total ev df) / of_nat (nrows df * 3)))"

definition completeness_score :: "dataframe \<Rightarrow> rat" where
  "completeness_score df =
     sum_list (map (\<lambda>c. 100 - missing_pct (nrows df) c) (columns df)) /
       of_nat (length (columns df))"

definition accuracy_findings :: "env \<Rightarrow> dataframe \<Rightarrow> string list" where
  "accuracy_findings ev df =
     issue_finding (future_count ev df) (future_msg (future_count ev df)) @
     issue_finding (year_count ev df) (years_msg (year_count ev df) (current_year ev + 1)) @
     issue_finding (speed_count df) (speed_msg (speed_count df))"

fun converts :: "env \<Rightarrow> cell \<Rightarrow> bool" where
  "converts ev c = (case to_datetime_cell ev c of Inl e \<Rightarrow> False | Inr t \<Rightarrow> True)"

fun has_time :: "env \<Rightarrow> cell \<Rightarrow> bool" where
  "has_time ev c = (case to_datetime_cell ev c of Inr (Some t) \<Rightarrow> True | _ \<Rightarrow> False)"

fun num_or_null :: "cell \<Rightarrow> bool" where
  "num_or_null Null = True"
| "num_or_null (Num v) = True"
| "num_or_null c = False"

text \<open>
  The tables on which the audit raises nothing: the date column converts and holds at
  least one timestamp, and the two numeric columns hold numbers only.
\<close>

definition audit_ready :: "env \<Rightarrow> dataframe \<Rightarrow> bool" where
  "audit_ready ev df \<longleftrightarrow>
     (case get_column df crash_date of None \<Rightarrow> True
      | Some c \<Rightarrow> list_all (converts ev) (cells c) \<and> list_ex (has_time ev) (cells c)) \<and>
     (case get_column df vehicle_year of None \<Rightarrow> True
      | Some c \<Rightarrow> list_all num_or_null (cells c)) \<and>
     (case get_column df speed_limit of None \<Rightarrow> True
      | Some c \<Rightarrow> list_all num_or_null (cells c))"



section \<open>The cross-field check of the second audit class\<close>

record check_report =
  status :: string
  issues :: "string list"







section \<open>Interactive cleaning\<close>

text \<open>
  What the cleaning code takes from pandas and Python without the repository fixing it:
  the sorted list of the most frequent values of a series, the text of a value, and
  the dtype of a column after new cells were assigned to it (from its old dtype).
\<close>

record pylib =
  series_mode :: "cell list \<Rightarrow> cell list"
  py_str :: "cell \<Rightarrow> string"
  infer_dtype :: "string \<Rightarrow> cell list \<Rightarrow> string"

definition dropna_cells :: "cell list \<Rightarrow> cell list" where
  "dropna_cells cs = filter (\<lambda>c. c \<noteq> Null) cs"

text \<open>
  The numbers of a series. A string makes the arithmetic raise; the arithmetic of
  timestamps is not modelled and is reported as \<open>Unsupported\<close>.
\<close>

fun numeric_value :: "cell \<Rightarrow> error + rat" where
  "numeric_value (Num v) = Inr v"
| "numeric_value (Str s) = Inl TypeError"
| "numeric_value c = Inl Unsupported"

text \<open>\<open>Series.mean()\<close> skips missing cells; of no value at all it is \<open>NaN\<close>.\<close>

definition series_mean :: "cell list \<Rightarrow> error + rat option" where
  "series_mean cs =
     (case traverse numeric_value (dropna_cells cs) of
        Inl e \<Rightarrow> Inl e
      | Inr vs \<Rightarrow> Inr (if vs = [] then None else Some (sum_list vs / of_nat (length vs))))"

definition series_median :: "cell list \<Rightarrow> error + rat option" where
  "series_median cs =
     (case traverse numeric_value (dropna_cells cs) of
        Inl e \<Rightarrow> Inl e
      | Inr vs \<Rightarrow>
          (let s = sort vs; n = length s
           in Inr (if n = 0 then None
                   else if odd n then Some (s ! (n div 2))
                   else Some ((s ! (n div 2 - 1) + s ! (n div 2)) / 2))))"

definition fillna :: "cell \<Rightarrow> cell list \<Rightarrow> cell list" where
  "fillna v cs = map (\<lambda>c. if c = Null then v else c) cs"

definition float_cell :: "rat option \<Rightarrow> cell" where
  "float_cell v = (case v of None \<Rightarrow> Null | Some x \<Rightarrow> Num x)"

definition fmt_float_2f :: "rat option \<Rightarrow> string" where
  "fmt_float_2f v = (case v of None \<Rightarrow> ''nan'' | Some x \<Rightarrow> fmt_2f x)"

text \<open>The assignment \<open>df[col] = series\<close> to a column that exists.\<close>

definition set_column :: "pylib \<Rightarrow> dataframe \<Rightarrow> string \<Rightarrow> cell list \<Rightarrow> dataframe" where
  "set_column lib df name cs =
     df\<lparr>columns := map (\<lambda>c. if cname c = name
                                then c\<lparr>dtype := infer_dtype lib (dtype c) cs, cells := cs\<rparr>
                                else c)
                          (columns df)\<rparr>"

definition select_rows :: "bool list \<Rightarrow> dataframe \<Rightarrow> dataframe" where
  "select_rows keep df =
     \<lparr>nrows = sum_bool keep,
      columns = map (\<lambda>c. c\<lparr>cells := map fst (filter snd (zip (cells c) keep))\<rparr>) (columns df)\<rparr>"

definition impute_column ::
    "pylib \<Rightarrow> dataframe \<Rightarrow> string \<Rightarrow> string \<Rightarrow> error + dataframe \<times> string" where
  "impute_column lib df col strategy =
     (case get_column df col of
        None \<Rightarrow> Inl KeyError
      | Some c \<Rightarrow>
          (let msg = '''';
               before_nulls = sum_bool (isnull (cells c))
           in if strategy = ''Mean'' then
                (case series_mean (cells c) of
                   Inl e \<Rightarrow> Inl e
                 | Inr val \<Rightarrow>
                     Inr (set_column lib df col (fillna (float_cell val) (cells c)),
                          ''Imputed '' @ quoted col @ '' with Mean: '' @ fmt_float_2f val))
              else if strategy = ''Median'' then
                (case series_median (cells c) of
                   Inl e \<Rightarrow> Inl e
                 | Inr val \<Rightarrow>
                     Inr (set_column lib df col (fillna (float_cell val) (cells c)),
                          ''Imputed '' @ quoted col @ '' with Median: '' @ fmt_float_2f val))
              else if strategy = ''Mode'' then
                (let val = (case series_mode lib (cells c) of
                              [] \<Rightarrow> Str ''N/A'' | v # vs \<Rightarrow> v)
                 in Inr (set_column lib df col (fillna val (cells c)),
                         ''Imputed '' @ quoted col @ '' with Mode: '' @ py_str lib val))
              else if strategy = ''Drop'' then
                Inr (select_rows (map (\<lambda>x. x \<noteq> Null) (cells c)) df,
                     ''Dropped '' @ show_nat before_nulls @
                     '' rows with missing values in '' @ quoted col)
              else Inr (df, msg)))"

section \<open>The cleaning engine\<close>

text \<open>
  Data frames are objects: the store maps an address to the frame it holds, and a new
  object takes the next free address. The engine keeps the address of its own frame.
\<close>

type_synonym addr = nat

type_synonym store = "dataframe list"

record log_entry =
  log_timestamp :: string
  log_operation :: string
  log_impact :: string

record engine =
  df_ref :: addr
  history :: "log_entry list"

definition alloc :: "store \<Rightarrow> dataframe \<Rightarrow> addr \<times> store" where
  "alloc h v = (length h, h @ [v])"

text \<open>\<open>__init__\<close>: \<open>self.df = df.copy()\<close>, a new object with the contents of \<open>df\<close>.\<close>

definition engine_init :: "store \<Rightarrow> addr \<Rightarrow> store \<times> engine" where
  "engine_init h d = (let (a, h') = alloc h (h ! d) in (h', \<lparr>df_ref = a, history = []\<rparr>))"

definition log_step :: "(nat \<Rightarrow> string) \<Rightarrow> string \<Rightarrow> string \<Rightarrow> engine \<Rightarrow> engine" where
  "log_step clock operation impact e =
     e\<lparr>history := history e @
          [\<lparr>log_timestamp = clock (length (history e)), log_operation = operation,
            log_impact = impact\<rparr>]\<rparr>"

fun join :: "string \<Rightarrow> string list \<Rightarrow> string" where
  "join sep [] = []"
| "join sep [x] = x"
| "join sep (x # y # xs) = x @ sep @ join sep (y # xs)"

definition show_int :: "int \<Rightarrow> string" where
  "show_int i = (if i < 0 then ''-'' @ show_nat (nat (- i)) else show_nat (nat i))"

text \<open>The rows with a value in every column of the subset; an unknown label raises.\<close>

fun notnull_rows :: "dataframe \<Rightarrow> string list \<Rightarrow> error + bool list" where
  "notnull_rows df [] = Inr (replicate (nrows df) True)"
| "notnull_rows df (n # ns) =
     (case get_column df n of
        None \<Rightarrow> Inl KeyError
      | Some c \<Rightarrow>
          (case notnull_rows df ns of
             Inl e \<Rightarrow> Inl e
           | Inr keep \<Rightarrow> Inr (map2 (\<and>) (map (\<lambda>x. x \<noteq> Null) (cells c)) keep)))"

text \<open>\<open>self.df.dropna(subset=columns, inplace=True)\<close> changes the engine's own object.\<close>

definition drop_nulls ::
    "(nat \<Rightarrow> string) \<Rightarrow> string list \<Rightarrow> store \<times> engine \<Rightarrow> error + store \<times> engine" where
  "drop_nulls clock cols st =
     (let (h, e) = st; before = nrows (h ! df_ref e)
      in case notnull_rows (h ! df_ref e) cols of
           Inl err \<Rightarrow> Inl err
         | Inr keep \<Rightarrow>
             (let h' = h[df_ref e := select_rows keep (h ! df_ref e)];
                  after = nrows (h' ! df_ref e)
              in Inr (h', log_step clock (''Drop Nulls in '' @ join '', '' cols)
                            (''Removed '' @ show_nat (before - after) @ '' rows.'') e)))"

text \<open>\<open>self.df[column].fillna(value, inplace=True)\<close>, writing through to the engine's frame.\<close>

definition fill_nulls ::
    "pylib \<Rightarrow> (nat \<Rightarrow> string) \<Rightarrow> string \<Rightarrow> cell \<Rightarrow> store \<times> engine \<Rightarrow>
     error + store \<times> engine" where
  "fill_nulls lib clock col v st =
     (let (h, e) = st
      in case get_column (h ! df_ref e) col of
           None \<Rightarrow> Inl KeyError
         | Some c \<Rightarrow>
             (let count = sum_bool (isnull (cells c));
                  h' = h[df_ref e := set_column lib (h ! df_ref e) col (fillna v (cells c))]
              in Inr (h', log_step clock (''Fill Nulls in '' @ col)
                            (''Filled '' @ show_nat count @ '' values with '' @
                             quoted (py_str lib v) @ ''.'') e)))"

text \<open>\<open>self.df = self.df[self.df[column] >= min_year]\<close>: a new object, and the engine moves to it.\<close>

definition filter_by_year ::
    "(nat \<Rightarrow> string) \<Rightarrow> string \<Rightarrow> int \<Rightarrow> store \<times> engine \<Rightarrow> error + store \<times> engine" where
  "filter_by_year clock col min_year st =
     (let (h, e) = st; before = nrows (h ! df_ref e)
      in case get_column (h ! df_ref e) col of
           None \<Rightarrow> Inl KeyError
         | Some c \<Rightarrow>
             (case traverse (cell_ge (of_int min_year)) (cells c) of
                Inl err \<Rightarrow> Inl err
              | Inr keep \<Rightarrow>
                  (let (a, h') = alloc h (select_rows keep (h ! df_ref e));
                       e' = e\<lparr>df_ref := a\<rparr>;
                       after = nrows (h' ! df_ref e')
                   in Inr (h', log_step clock (''Filter '' @ col @ '' >= '' @ show_int min_year)
                                 (''Removed '' @ show_nat (before - after) @ '' rows.'') e'))))"

datatype engine_op =
    DropNulls "string list"
  | FillNulls string cell
  | FilterByYear string int

fun apply_engine_op ::
    "pylib \<Rightarrow> (nat \<Rightarrow> string) \<Rightarrow> engine_op \<Rightarrow> store \<times> engine \<Rightarrow> error + store \<times> engine" where
  "apply_engine_op lib clock (DropNulls cols) st = drop_nulls clock cols st"
| "apply_engine_op lib clock (FillNulls col v) st = fill_nulls lib clock col v st"
| "apply_engine_op lib clock (FilterByYear col y) st = filter_by_year clock col y st"

text \<open>
  A sequence of calls; an exception ends it and leaves the state of the last completed
  call.
\<close>

fun run_engine_ops ::
    "pylib \<Rightarrow> (nat \<Rightarrow> string) \<Rightarrow> engine_op list \<Rightarrow> store \<times> engine \<Rightarrow>
     (store \<times> engine) \<times> error option" where
  "run_engine_ops lib clock [] st = (st, None)"
| "run_engine_ops lib clock (op # ops) st =
     (case apply_engine_op lib clock op st of
        Inl err \<Rightarrow> (st, Some err)
      | Inr st' \<Rightarrow> run_engine_ops lib clock ops st')"

text \<open>The objects that existed before the engine are out of its reach.\<close>

definition untouched :: "store \<Rightarrow> store \<times> engine \<Rightarrow> bool" where
  "untouched h st \<longleftrightarrow>
     length h \<le> df_ref (snd st) \<and> df_ref (snd st) < length (fst st) \<and>
     take (length h) (fst st) = h"

section \<open>Sample data\<close>

definition demo_now :: timestamp where
  "demo_now = \<lparr>year = 2024, month = 3, day = 5, hour = 7, minute = 8, second = 9, nanos = 0\<rparr>"

definition demo_env :: env where
  "demo_env = \<lparr>now = demo_now, current_year = 2024, parse_datetime = (\<lambda>c. None)\<rparr>"

definition demo_table :: dataframe where
  "demo_table = \<lparr>nrows = 2, columns =
     [\<lparr>cname = ''Report Number'', dtype = ''object'', cells = [Str ''a'', Str ''a'']\<rparr>,
      \<lparr>cname = ''Crash Date/Time'', dtype = ''datetime64[ns]'',
        cells = [Null, Time (demo_now\<lparr>year := 2025\<rparr>)]\<rparr>,
      \<lparr>cname = ''Speed Limit'', dtype = ''float64'', cells = [Num (-5), Null]\<rparr>]\<rparr>"

definition empty_table :: dataframe where
  "empty_table = \<lparr>nrows = 0, columns = []\<rparr>"

definition demo_table2 :: dataframe where
  "demo_table2 = \<lparr>nrows = 2, columns =
     [\<lparr>cname = ''Report Number'', dtype = ''object'', cells = [Str ''a'', Str ''a'']\<rparr>,
      \<lparr>cname = ''Crash Date/Time'', dtype = ''datetime64[ns]'',
        cells = [Null, Time (demo_now\<lparr>year := 2025\<rparr>)]\<rparr>,
      \<lparr>cname = ''Speed Limit'', dtype = ''float64'', cells = [Num (-5), Num (-1)]\<rparr>]\<rparr>"


definition demo_lib :: pylib where
  "demo_lib = \<lparr>series_mode = (\<lambda>cs. []), py_str = (\<lambda>c. ''''),
                infer_dtype = (\<lambda>dt cs. dt)\<rparr>"


definition speed_table :: dataframe where
  "speed_table = \<lparr>nrows = 3, columns =
     [\<lparr>cname = ''x'', dtype = ''float64'', cells = [Num 30, Null, Num 50]\<rparr>]\<rparr>"

definition demo_clock :: "nat \<Rightarrow> string" where
  "demo_clock n = ''2024-03-05 07:08:09''"

section \<open>Properties of the audit\<close>

lemma audit_fold_summary:
  "summary (fst (foldl (audit_column n) (res, ms) cols)) =
     summary res @ concat (map (col_findings n) cols)"
  by (induction cols arbitrary: res ms)
     (simp_all add: audit_column_def Let_def col_findings_def)

lemma audit_fold_stats:
  "map stat_status (column_stats (fst (foldl (audit_column n) (res, ms) cols))) =
     map stat_status (column_stats res) @ map (col_status n) cols"
  by (induction cols arbitrary: res ms)
     (simp_all add: audit_column_def Let_def col_status_def)

lemma audit_fold_names:
  "map stat_column (column_stats (fst (foldl (audit_column n) (res, ms) cols))) =
     map stat_column (column_stats res) @ map cname cols"
  by (induction cols arbitrary: res ms)
     (simp_all add: audit_column_def Let_def)

lemma audit_fold_metrics:
  "snd (foldl (audit_column n) (res, ms) cols) = ms @ map (\<lambda>c. 100 - missing_pct n c) cols"
  by (induction cols arbitrary: res ms)
     (simp_all add: audit_column_def Let_def)

lemma audit_fold_scores:
  "scores (fst (foldl (audit_column n) (res, ms) cols)) = scores res"
  by (induction cols arbitrary: res ms)
     (simp_all add: audit_column_def Let_def)

lemma audit_fold_latest:
  "latest_date (fst (foldl (audit_column n) (res, ms) cols)) = latest_date res"
  by (induction cols arbitrary: res ms)
     (simp_all add: audit_column_def Let_def)

lemma consistency_summary:
  "summary (consistency_check df n res) = summary res @ dup_findings df"
  by (simp add: consistency_check_def dup_findings_def dup_count_def Let_def
           split: option.splits)

lemma consistency_scores:
  "scores (consistency_check df (nrows df) res) =
     (scores res)(''consistency'' \<mapsto> consistency_score df)"
  by (simp add: consistency_check_def consistency_score_def dup_count_def Let_def
           split: option.splits)

lemma consistency_stats:
  "column_stats (consistency_check df n res) = column_stats res"
  by (simp add: consistency_check_def Let_def split: option.splits)

lemma consistency_latest:
  "latest_date (consistency_check df n res) = latest_date res"
  by (simp add: consistency_check_def Let_def split: option.splits)

lemma traverse_count:
  "traverse f xs = Inr ys \<Longrightarrow>
     length (filter h ys) = length (filter (\<lambda>x. \<exists>y. f x = Inr y \<and> h y) xs)"
  by (induction xs arbitrary: ys) (auto split: sum.splits)

lemma traverse_length: "traverse f xs = Inr ys \<Longrightarrow> length ys = length xs"
  by (induction xs arbitrary: ys) (auto split: sum.splits)

lemma future_count_eq:
  assumes "to_datetime ev cs = Inr ts"
  shows "sum_bool (map (gt_ts (now ev)) ts) = length (filter (is_future ev) cs)"
proof -
  have "length (filter (gt_ts (now ev)) ts) =
        length (filter (\<lambda>x. \<exists>y. to_datetime_cell ev x = Inr y \<and> gt_ts (now ev) y) cs)"
    using assms unfolding to_datetime_def by (rule traverse_count)
  moreover have "(\<lambda>x. \<exists>y. to_datetime_cell ev x = Inr y \<and> gt_ts (now ev) y) = is_future ev"
  proof
    fix x
    show "(\<exists>y. to_datetime_cell ev x = Inr y \<and> gt_ts (now ev) y) = is_future ev x"
      by (cases "to_datetime_cell ev x")
         (auto simp: is_future_def split: option.splits elim: gt_ts.elims)
  qed
  ultimately show ?thesis by (simp add: sum_bool_def filter_map comp_def)
qed

lemma year_count_eq:
  assumes "traverse (cell_gt (of_nat (current_year ev + 1))) cs = Inr bs"
  shows "sum_bool bs = length (filter (is_invalid_year ev) cs)"
proof -
  have "(\<lambda>x. \<exists>y. cell_gt (of_nat (current_year ev + 1)) x = Inr y \<and> y) = is_invalid_year ev"
  proof
    fix x
    show "(\<exists>y. cell_gt (of_nat (current_year ev + 1)) x = Inr y \<and> y) = is_invalid_year ev x"
      by (cases x) (auto simp: is_invalid_year_def)
  qed
  with traverse_count [OF assms, of "\<lambda>b. b"] show ?thesis by (simp add: sum_bool_def)
qed

lemma speed_count_eq:
  assumes "traverse (cell_lt 0) cs = Inr bs"
  shows "sum_bool bs = length (filter is_negative cs)"
proof -
  have "(\<lambda>x. \<exists>y. cell_lt 0 x = Inr y \<and> y) = is_negative"
  proof
    fix x
    show "(\<exists>y. cell_lt 0 x = Inr y \<and> y) = is_negative x"
      by (cases x) (auto simp: is_negative_def)
  qed
  with traverse_count [OF assms, of "\<lambda>b. b"] show ?thesis by (simp add: sum_bool_def)
qed

lemma accuracy_future_Inr:
  assumes "accuracy_future ev df (res, k) = Inr st"
  shows "st = record_issue (future_count ev df) (future_msg (future_count ev df)) (res, k)"
  using assms
  by (auto simp: accuracy_future_def future_count_def count_in_def Let_def record_issue_def
                 future_count_eq
           split: option.splits sum.splits)

lemma accuracy_years_Inr:
  assumes "accuracy_years ev df (res, k) = Inr st"
  shows "st = record_issue (year_count ev df)
                (years_msg (year_count ev df) (current_year ev + 1)) (res, k)"
  using assms
  by (auto simp: accuracy_years_def year_count_def count_in_def Let_def record_issue_def
                 year_count_eq
           split: option.splits sum.splits)

lemma accuracy_speed_Inr:
  assumes "accuracy_speed df (res, k) = Inr st"
  shows "st = record_issue (speed_count df) (speed_msg (speed_count df)) (res, k)"
  using assms
  by (auto simp: accuracy_speed_def speed_count_def count_in_def Let_def record_issue_def
                 speed_count_eq
           split: option.splits sum.splits)

lemma record_issue_fst:
  "fst (record_issue k msg st) = (fst st)\<lparr>summary := summary (fst st) @ issue_finding k msg\<rparr>"
  by (simp add: record_issue_def issue_finding_def split_def)

lemma record_issue_snd: "snd (record_issue k msg st) = snd st + k"
  by (simp add: record_issue_def split_def)

lemma timeliness_Inr:
  assumes "timeliness_check ev df res = Inr res0"
  shows "summary res0 = summary res \<and> scores res0 = scores res \<and>
         column_stats res0 = column_stats res \<and> health_score res0 = health_score res"
  using assms by (auto simp: timeliness_check_def split: option.splits sum.splits)

lemma finalize_Inr:
  assumes "finalize n ms (res, k) = Inr r"
  shows "\<exists>s. scores res ''consistency'' = Some s \<and>
           r = res\<lparr>scores := (scores res)
                      (''accuracy'' \<mapsto> max 0 ((1 - of_nat k / of_nat (n * 3)) * 100),
                       ''completeness'' \<mapsto> sum_list ms / of_nat (length ms)),
                    health_score := Some ((sum_list ms / of_nat (length ms) + s +
                       max 0 ((1 - of_nat k / of_nat (n * 3)) * 100)) / 3)\<rparr>"
  using assms
  by (auto simp: finalize_def get_score_def Let_def split: option.splits sum.splits)

lemma run_audit_Inr:
  assumes run: "run_audit ev df = Inr r" and ne: "\<not> df_empty df"
  shows "\<exists>res0 res.
           timeliness_check ev df init_results = Inr res0 \<and>
           summary res = concat (map (col_findings (nrows df)) (columns df)) @
                         dup_findings df @ accuracy_findings ev df \<and>
           scores res = [''consistency'' \<mapsto> consistency_score df] \<and>
           column_stats res = column_stats (fst (audit_loop (nrows df) res0 (columns df))) \<and>
           latest_date res = latest_date res0 \<and>
           finalize (nrows df) (map (\<lambda>c. 100 - missing_pct (nrows df) c) (columns df))
             (res, accuracy_issue_total ev df) = Inr r"
proof -
  let ?n = "nrows df"
  from run ne obtain res0 where t: "timeliness_check ev df init_results = Inr res0"
    by (auto simp: run_audit_def Let_def split: sum.splits)
  define res1 where "res1 = fst (audit_loop ?n res0 (columns df))"
  define ms where "ms = snd (audit_loop ?n res0 (columns df))"
  define res2 where "res2 = consistency_check df ?n res1"
  from run ne t obtain st1 st2 st3 where
    a1: "accuracy_future ev df (res2, 0) = Inr st1" and
    a2: "accuracy_years ev df st1 = Inr st2" and
    a3: "accuracy_speed df st2 = Inr st3" and
    fin: "finalize ?n ms st3 = Inr r"
    by (auto simp: run_audit_def Let_def res1_def ms_def res2_def split_def
             split: sum.splits)
  have ms: "ms = map (\<lambda>c. 100 - missing_pct ?n c) (columns df)"
    by (simp add: ms_def audit_loop_def audit_fold_metrics)
  have s1: "st1 = record_issue (future_count ev df) (future_msg (future_count ev df)) (res2, 0)"
    using a1 by (rule accuracy_future_Inr)
  have s2: "st2 = record_issue (year_count ev df)
                   (years_msg (year_count ev df) (current_year ev + 1)) (fst st1, snd st1)"
    using a2 accuracy_years_Inr [of ev df "fst st1" "snd st1" st2] by simp
  have s3: "st3 = record_issue (speed_count df) (speed_msg (speed_count df)) (fst st2, snd st2)"
    using a3 accuracy_speed_Inr [of df "fst st2" "snd st2" st3] by simp
  have k: "snd st3 = accuracy_issue_total ev df"
    by (simp add: s1 s2 s3 record_issue_snd accuracy_issue_total_def)
  have sum2: "summary res2 = concat (map (col_findings ?n) (columns df)) @ dup_findings df"
    using timeliness_Inr [OF t]
    by (simp add: res2_def res1_def consistency_summary audit_loop_def audit_fold_summary
                  init_results_def)
  have sc2: "scores res2 = [''consistency'' \<mapsto> consistency_score df]"
    using timeliness_Inr [OF t]
    by (simp add: res2_def res1_def consistency_scores audit_loop_def audit_fold_scores
                  init_results_def)
  have f1: "fst st1 = res2\<lparr>summary := summary res2 @
              issue_finding (future_count ev df) (future_msg (future_count ev df))\<rparr>"
    by (simp add: s1 record_issue_fst)
  have f2: "fst st2 = (fst st1)\<lparr>summary := summary (fst st1) @
              issue_finding (year_count ev df)
                (years_msg (year_count ev df) (current_year ev + 1))\<rparr>"
    by (simp add: s2 record_issue_fst)
  have f3: "fst st3 = (fst st2)\<lparr>summary := summary (fst st2) @
              issue_finding (speed_count df) (speed_msg (speed_count df))\<rparr>"
    by (simp add: s3 record_issue_fst)
  have "summary (fst st3) = concat (map (col_findings ?n) (columns df)) @
          dup_findings df @ accuracy_findings ev df"
    by (simp add: f3 f2 f1 sum2 accuracy_findings_def)
  moreover have "scores (fst st3) = [''consistency'' \<mapsto> consistency_score df]"
    by (simp add: f3 f2 f1 sc2)
  moreover have "column_stats (fst st3) = column_stats res1"
    by (simp add: f3 f2 f1 res2_def consistency_stats)
  moreover have "latest_date (fst st3) = latest_date res0"
    by (simp add: f3 f2 f1 res2_def res1_def consistency_latest audit_loop_def
                  audit_fold_latest)
  moreover have "finalize ?n (map (\<lambda>c. 100 - missing_pct ?n c) (columns df))
                   (fst st3, accuracy_issue_total ev df) = Inr r"
    using fin k by (simp add: ms [symmetric] del: finalize_def) (metis prod.collapse)
  ultimately show ?thesis using t unfolding res1_def by blast
qed

lemma traverse_total:
  "list_all (\<lambda>x. \<exists>y. f x = Inr y) xs \<Longrightarrow> \<exists>ys. traverse f xs = Inr ys"
  by (induction xs) auto

lemma traverse_nth:
  "traverse f xs = Inr ys \<Longrightarrow> i < length xs \<Longrightarrow> f (xs ! i) = Inr (ys ! i)"
proof (induction xs arbitrary: ys i)
  case Nil
  then show ?case by simp
next
  case (Cons x xs)
  then show ?case by (cases i) (auto split: sum.splits)
qed

lemma foldl_max_step_Some: "foldl max_step (Some m) ts \<noteq> None"
proof (induction ts arbitrary: m)
  case Nil
  then show ?case by simp
next
  case (Cons t ts)
  then show ?case by (cases t) simp_all
qed

lemma foldl_max_step_ex: "Some t \<in> set ts \<Longrightarrow> foldl max_step acc ts \<noteq> None"
proof (induction ts arbitrary: acc)
  case Nil
  then show ?case by simp
next
  case (Cons a ts)
  show ?case
  proof (cases a)
    case None
    with Cons show ?thesis by simp
  next
    case (Some x)
    then show ?thesis by (cases acc) (simp_all add: foldl_max_step_Some)
  qed
qed

lemma converts_Inr: "converts ev x \<Longrightarrow> \<exists>y. to_datetime_cell ev x = Inr y"
  by (cases "to_datetime_cell ev x") auto

lemma num_or_null_gt: "num_or_null x \<Longrightarrow> \<exists>y. cell_gt n x = Inr y"
  by (cases x) auto

lemma num_or_null_lt: "num_or_null x \<Longrightarrow> \<exists>y. cell_lt n x = Inr y"
  by (cases x) auto

lemma to_datetime_total:
  assumes "list_all (converts ev) cs"
  shows "\<exists>ts. to_datetime ev cs = Inr ts"
proof -
  have "list_all (\<lambda>x. \<exists>y. to_datetime_cell ev x = Inr y) cs"
    using assms by (simp add: list_all_iff converts_Inr del: converts.simps)
  then show ?thesis unfolding to_datetime_def by (rule traverse_total)
qed

lemma series_max_total:
  assumes "to_datetime ev cs = Inr ts" and "list_ex (has_time ev) cs"
  shows "series_max ts \<noteq> None"
proof -
  from assms(2) obtain x where x: "x \<in> set cs" "has_time ev x"
    by (auto simp: list_ex_iff)
  then obtain i where i: "i < length cs" "cs ! i = x" by (auto simp: in_set_conv_nth)
  from x(2) obtain t where t: "to_datetime_cell ev x = Inr (Some t)"
    by (auto split: sum.splits option.splits)
  have "to_datetime_cell ev (cs ! i) = Inr (ts ! i)"
    using assms(1) i(1) unfolding to_datetime_def by (rule traverse_nth)
  with t i have "ts ! i = Some t" by simp
  moreover have "length ts = length cs"
    using assms(1) unfolding to_datetime_def by (rule traverse_length)
  ultimately have "Some t \<in> set ts" using i(1) by (metis nth_mem)
  then show ?thesis unfolding series_max_def by (rule foldl_max_step_ex)
qed

lemma numeric_gt_total:
  "list_all num_or_null cs \<Longrightarrow> \<exists>bs. traverse (cell_gt n) cs = Inr bs"
proof (rule traverse_total)
  assume "list_all num_or_null cs"
  then show "list_all (\<lambda>x. \<exists>y. cell_gt n x = Inr y) cs"
    by (simp add: list_all_iff num_or_null_gt)
qed

lemma numeric_lt_total:
  "list_all num_or_null cs \<Longrightarrow> \<exists>bs. traverse (cell_lt n) cs = Inr bs"
proof (rule traverse_total)
  assume "list_all num_or_null cs"
  then show "list_all (\<lambda>x. \<exists>y. cell_lt n x = Inr y) cs"
    by (simp add: list_all_iff num_or_null_lt)
qed

lemma timeliness_total:
  assumes "audit_ready ev df"
  shows "\<exists>res0. timeliness_check ev df res = Inr res0"
proof (cases "get_column df crash_date")
  case None
  then show ?thesis by (simp add: timeliness_check_def)
next
  case (Some c)
  with assms have c: "list_all (converts ev) (cells c)" "list_ex (has_time ev) (cells c)"
    by (simp_all add: audit_ready_def)
  from to_datetime_total [OF c(1)] obtain ts where ts: "to_datetime ev (cells c) = Inr ts" ..
  from series_max_total [OF ts c(2)] obtain m where "series_max ts = Some m" by auto
  with Some ts show ?thesis by (simp add: timeliness_check_def)
qed

lemma accuracy_future_total:
  assumes "audit_ready ev df"
  shows "\<exists>st'. accuracy_future ev df st = Inr st'"
proof (cases "get_column df crash_date")
  case None
  then show ?thesis by (simp add: accuracy_future_def)
next
  case (Some c)
  with assms have "list_all (converts ev) (cells c)" by (simp add: audit_ready_def)
  from to_datetime_total [OF this] obtain ts where "to_datetime ev (cells c) = Inr ts" ..
  with Some show ?thesis by (simp add: accuracy_future_def Let_def)
qed

lemma accuracy_years_total:
  assumes "audit_ready ev df"
  shows "\<exists>st'. accuracy_years ev df st = Inr st'"
proof (cases "get_column df vehicle_year")
  case None
  then show ?thesis by (simp add: accuracy_years_def)
next
  case (Some c)
  with assms have "list_all num_or_null (cells c)" by (simp add: audit_ready_def)
  from numeric_gt_total [OF this, of "of_nat (current_year ev + 1)"]
  obtain bs where "traverse (cell_gt (of_nat (current_year ev + 1))) (cells c) = Inr bs" ..
  with Some show ?thesis by (simp add: accuracy_years_def Let_def)
qed

lemma accuracy_speed_total:
  assumes "audit_ready ev df"
  shows "\<exists>st'. accuracy_speed df st = Inr st'"
proof (cases "get_column df speed_limit")
  case None
  then show ?thesis by (simp add: accuracy_speed_def)
next
  case (Some c)
  with assms have "list_all num_or_null (cells c)" by (simp add: audit_ready_def)
  from numeric_lt_total [OF this, of 0]
  obtain bs where "traverse (cell_lt 0) (cells c) = Inr bs" ..
  with Some show ?thesis by (simp add: accuracy_speed_def Let_def)
qed

lemma finalize_total:
  assumes "scores res ''consistency'' \<noteq> None"
  shows "\<exists>r. finalize n ms (res, k) = Inr r"
  using assms by (auto simp: finalize_def get_score_def Let_def)

lemma consistency_sets_score:
  "scores (consistency_check df n res) ''consistency'' \<noteq> None"
  by (simp add: consistency_check_def Let_def split: option.splits)

lemma accuracy_Inr_scores:
  "accuracy_future ev df st = Inr st' \<Longrightarrow> scores (fst st') = scores (fst st)"
  "accuracy_years ev df st = Inr st' \<Longrightarrow> scores (fst st') = scores (fst st)"
  "accuracy_speed df st = Inr st' \<Longrightarrow> scores (fst st') = scores (fst st)"
  by (auto simp: accuracy_future_def accuracy_years_def accuracy_speed_def Let_def
                 record_issue_def split_def
           split: option.splits sum.splits if_splits)

lemma run_audit_total:
  assumes "audit_ready ev df"
  shows "\<exists>r. run_audit ev df = Inr r"
proof (cases "df_empty df")
  case True
  then show ?thesis by (simp add: run_audit_def)
next
  case False
  from timeliness_total [OF assms] obtain res0 where
    t: "timeliness_check ev df init_results = Inr res0" by blast
  define res2 where
    "res2 = consistency_check df (nrows df) (fst (audit_loop (nrows df) res0 (columns df)))"
  define ms where "ms = snd (audit_loop (nrows df) res0 (columns df))"
  from accuracy_future_total [OF assms] obtain st1 where
    a1: "accuracy_future ev df (res2, 0) = Inr st1" by blast
  from accuracy_years_total [OF assms] obtain st2 where
    a2: "accuracy_years ev df st1 = Inr st2" by blast
  from accuracy_speed_total [OF assms] obtain st3 where
    a3: "accuracy_speed df st2 = Inr st3" by blast
  have "scores (fst st3) = scores res2"
    using accuracy_Inr_scores(1) [OF a1] accuracy_Inr_scores(2) [OF a2]
          accuracy_Inr_scores(3) [OF a3] by simp
  then have "scores (fst st3) ''consistency'' \<noteq> None"
    by (simp add: res2_def consistency_sets_score)
  from finalize_total [OF this, of "nrows df" ms "snd st3"]
  obtain r where "finalize (nrows df) ms st3 = Inr r" by auto
  with False t a1 a2 a3 show ?thesis
    by (simp add: run_audit_def Let_def split_def res2_def ms_def)
qed

lemma run_audit_result:
  assumes run: "run_audit ev df = Inr r" and ne: "\<not> df_empty df"
  shows "scores r = [''consistency'' \<mapsto> consistency_score df,
                     ''accuracy'' \<mapsto> accuracy_score ev df,
                     ''completeness'' \<mapsto> completeness_score df]"
    and "health_score r =
           Some ((completeness_score df + consistency_score df + accuracy_score ev df) / 3)"
    and "summary r = concat (map (col_findings (nrows df)) (columns df)) @
                     dup_findings df @ accuracy_findings ev df"
    and "map stat_status (column_stats r) = map (col_status (nrows df)) (columns df)"
    and "map stat_column (column_stats r) = map cname (columns df)"
proof -
  from run_audit_Inr [OF run ne] obtain res0 res where
    t: "timeliness_check ev df init_results = Inr res0" and
    sm: "summary res = concat (map (col_findings (nrows df)) (columns df)) @
                       dup_findings df @ accuracy_findings ev df" and
    sc: "scores res = [''consistency'' \<mapsto> consistency_score df]" and
    cs: "column_stats res = column_stats (fst (audit_loop (nrows df) res0 (columns df)))" and
    fin: "finalize (nrows df) (map (\<lambda>c. 100 - missing_pct (nrows df) c) (columns df))
            (res, accuracy_issue_total ev df) = Inr r"
    by blast
  have acc: "max 0 ((1 - of_nat (accuracy_issue_total ev df) / of_nat (nrows df * 3)) * 100) =
             accuracy_score ev df"
    by (simp add: accuracy_score_def mult.commute)
  have comp: "sum_list (map (\<lambda>c. 100 - missing_pct (nrows df) c) (columns df)) /
                of_nat (length (map (\<lambda>c. 100 - missing_pct (nrows df) c) (columns df))) =
              completeness_score df"
    by (simp add: completeness_score_def)
  from finalize_Inr [OF fin] obtain s where
    s: "scores res ''consistency'' = Some s" and
    r: "r = res\<lparr>scores := (scores res)
                   (''accuracy'' \<mapsto> accuracy_score ev df,
                    ''completeness'' \<mapsto> completeness_score df),
                 health_score := Some ((completeness_score df + s + accuracy_score ev df) / 3)\<rparr>"
    unfolding acc comp by blast
  from s sc have s': "s = consistency_score df" by simp
  show "scores r = [''consistency'' \<mapsto> consistency_score df,
                    ''accuracy'' \<mapsto> accuracy_score ev df,
                    ''completeness'' \<mapsto> completeness_score df]"
    by (simp add: r sc)
  show "health_score r =
          Some ((completeness_score df + consistency_score df + accuracy_score ev df) / 3)"
    by (simp add: r s')
  show "summary r = concat (map (col_findings (nrows df)) (columns df)) @
                    dup_findings df @ accuracy_findings ev df"
    by (simp add: r sm)
  have st0: "column_stats res0 = []"
    using timeliness_Inr [OF t] by (simp add: init_results_def)
  show "map stat_status (column_stats r) = map (col_status (nrows df)) (columns df)"
    by (simp add: r cs audit_loop_def audit_fold_stats st0)
  show "map stat_column (column_stats r) = map cname (columns df)"
    by (simp add: r cs audit_loop_def audit_fold_names st0)
qed

lemma demo_table_ready: "audit_ready demo_env demo_table"
  by (simp add: audit_ready_def demo_table_def demo_env_def get_column_def crash_date_def
                vehicle_year_def speed_limit_def)

lemma demo_table_nonempty: "\<not> df_empty demo_table"
  by (simp add: df_empty_def demo_table_def)

lemma demo_table_wf: "wf_table demo_table"
  by (simp add: wf_table_def demo_table_def datetime_dtype_def)

text \<open>
  C1. On a non-empty table the health score is the mean of the completeness,
  consistency and accuracy scores; these three are the only scores stored, so the latest
  timestamp takes no part in it. The audit returns on every table that is ready for it.
\<close>

theorem health_score_mean:
  assumes "wf_table df" and "\<not> df_empty df"
  shows "(audit_ready ev df \<longrightarrow> (\<exists>r. run_audit ev df = Inr r)) \<and>
         (\<forall>r. run_audit ev df = Inr r \<longrightarrow>
            (\<exists>c s a. scores r ''completeness'' = Some c \<and>
                     scores r ''consistency'' = Some s \<and>
                     scores r ''accuracy'' = Some a \<and>
                     health_score r = Some ((c + s + a) / 3)) \<and>
            dom (scores r) = {''completeness'', ''consistency'', ''accuracy''})"
proof (intro conjI allI impI)
  assume "audit_ready ev df"
  then show "\<exists>r. run_audit ev df = Inr r" by (rule run_audit_total)
next
  fix r
  assume run: "run_audit ev df = Inr r"
  note res = run_audit_result [OF run assms(2)]
  show "\<exists>c s a. scores r ''completeness'' = Some c \<and>
                scores r ''consistency'' = Some s \<and>
                scores r ''accuracy'' = Some a \<and>
                health_score r = Some ((c + s + a) / 3)"
    by (simp add: res(1) res(2))
  show "dom (scores r) = {''completeness'', ''consistency'', ''accuracy''}"
    by (auto simp: res(1))
qed

theorem health_score_mean_witness:
  "wf_table demo_table \<and> \<not> df_empty demo_table \<and> audit_ready demo_env demo_table \<and>
   (\<exists>r. run_audit demo_env demo_table = Inr r \<and>
        (\<exists>c s a. scores r ''completeness'' = Some c \<and>
                 scores r ''consistency'' = Some s \<and>
                 scores r ''accuracy'' = Some a \<and>
                 health_score r = Some ((c + s + a) / 3)))"
proof -
  note h = health_score_mean [OF demo_table_wf demo_table_nonempty, of demo_env]
  have "\<exists>r. run_audit demo_env demo_table = Inr r"
    using conjunct1 [OF h] demo_table_ready by (rule mp)
  then obtain r where r: "run_audit demo_env demo_table = Inr r" ..
  note c = mp [OF spec [OF conjunct2 [OF h], of r] r]
  show ?thesis
    using demo_table_wf demo_table_nonempty demo_table_ready r conjunct1 [OF c]
    by (intro conjI exI [of _ r]) assumption+
qed

text \<open>
  C2. As stated the claim fails: the report of an empty table has no health score.
\<close>

theorem empty_report_lacks_health_score:
  "run_audit demo_env empty_table = Inr init_results \<and> health_score init_results = None"
  by (simp add: run_audit_def df_empty_def empty_table_def init_results_def)

text \<open>
  C2, amended. For an empty table (no rows or no columns) the audit raises nothing and
  returns the initial report: no column statistics, no scores, no summary line, the
  latest date \<open>N/A\<close>, and no health score.
\<close>

theorem empty_audit:
  assumes "df_empty df"
  shows "run_audit ev df =
           Inr \<lparr>column_stats = [], scores = Map.empty, summary = [],
                latest_date = ''N/A'', health_score = None\<rparr>"
  using assms by (simp add: run_audit_def init_results_def)

theorem empty_audit_witness:
  "df_empty empty_table \<and>
   run_audit demo_env empty_table =
     Inr \<lparr>column_stats = [], scores = Map.empty, summary = [],
          latest_date = ''N/A'', health_score = None\<rparr>"
proof -
  have e: "df_empty empty_table" by (simp add: df_empty_def empty_table_def)
  from e empty_audit [OF e, of demo_env] show ?thesis by (rule conjI)
qed




lemma get_column_mem: "get_column df name = Some c \<Longrightarrow> c \<in> set (columns df)"
  by (auto simp: get_column_def find_Some_iff)

lemma wf_column_length:
  "wf_table df \<Longrightarrow> get_column df name = Some c \<Longrightarrow> length (cells c) = nrows df"
  by (auto simp: wf_table_def list_all_iff dest: get_column_mem)

lemma critical_msg_prefix: "take 6 (critical_msg n p) = ''Key fi''"
  by (simp add: critical_msg_def)

lemma duplicate_msg_prefix: "take 6 (duplicate_msg k) = ''Found ''"
  by (simp add: duplicate_msg_def)

lemma detected_prefix:
  "take 6 (future_msg k) = ''Detect''" "take 6 (years_msg k y) = ''Detect''"
  "take 6 (speed_msg k) = ''Detect''"
  by (simp_all add: future_msg_def years_msg_def speed_msg_def)

lemma filter_col_findings:
  "filter (\<lambda>m. take 6 m = p) (concat (map (col_findings n) cols)) =
     (if p = ''Key fi'' then concat (map (col_findings n) cols) else [])"
  by (induction cols) (auto simp: col_findings_def critical_msg_prefix)

lemma filter_dup_findings:
  "filter (\<lambda>m. take 6 m = p) (dup_findings df) =
     (if p = ''Found '' then dup_findings df else [])"
  by (auto simp: dup_findings_def duplicate_msg_prefix)

lemma filter_accuracy_findings:
  "filter (\<lambda>m. take 6 m = p) (accuracy_findings ev df) =
     (if p = ''Detect'' then accuracy_findings ev df else [])"
  by (auto simp: accuracy_findings_def issue_finding_def detected_prefix)

lemma run_audit_summary_filter:
  assumes "run_audit ev df = Inr r" and "\<not> df_empty df"
  shows "filter (\<lambda>m. take 6 m = ''Key fi'') (summary r) =
           concat (map (col_findings (nrows df)) (columns df))"
    and "filter (\<lambda>m. take 6 m = ''Found '') (summary r) = dup_findings df"
    and "filter (\<lambda>m. take 6 m = ''Detect'') (summary r) = accuracy_findings ev df"
  by (simp_all add: run_audit_result(3) [OF assms] filter_col_findings filter_dup_findings
                    filter_accuracy_findings)



text \<open>
  C4. On a non-empty table the accuracy score is \<open>max 0 (100 * (1 - T / (N * 3)))\<close>, where
  \<open>T\<close> adds the timestamps after now, the vehicle years beyond the current year plus one
  and the negative speed limits; a check whose column is absent counts 0 and the divisor
  stays \<open>N * 3\<close>. Each check with a positive count puts exactly one line into the summary,
  stating its count.
\<close>

theorem accuracy_score_formula:
  assumes "wf_table df" and "\<not> df_empty df"
  shows "(audit_ready ev df \<longrightarrow> (\<exists>r. run_audit ev df = Inr r)) \<and>
         (\<forall>r. run_audit ev df = Inr r \<longrightarrow>
            (let f = (case get_column df crash_date of None \<Rightarrow> 0
                      | Some c \<Rightarrow> length (filter (is_future ev) (cells c)));
                 y = (case get_column df vehicle_year of None \<Rightarrow> 0
                      | Some c \<Rightarrow> length (filter (is_invalid_year ev) (cells c)));
                 s = (case get_column df speed_limit of None \<Rightarrow> 0
                      | Some c \<Rightarrow> length (filter is_negative (cells c)))
             in scores r ''accuracy'' =
                  Some (max 0 (100 * (1 - of_nat (f + y + s) / of_nat (nrows df * 3)))) \<and>
                filter (\<lambda>m. take 6 m = ''Detect'') (summary r) =
                  (if 0 < f then [future_msg f] else []) @
                  (if 0 < y then [years_msg y (current_year ev + 1)] else []) @
                  (if 0 < s then [speed_msg s] else [])))"
proof (intro conjI allI impI)
  assume "audit_ready ev df"
  then show "\<exists>r. run_audit ev df = Inr r" by (rule run_audit_total)
next
  fix r
  assume run: "run_audit ev df = Inr r"
  have sc: "scores r ''accuracy'' = Some (accuracy_score ev df)"
    by (simp add: run_audit_result(1) [OF run assms(2)])
  have fl: "filter (\<lambda>m. take 6 m = ''Detect'') (summary r) = accuracy_findings ev df"
    by (rule run_audit_summary_filter(3) [OF run assms(2)])
  show "let f = (case get_column df crash_date of None \<Rightarrow> 0
                 | Some c \<Rightarrow> length (filter (is_future ev) (cells c)));
            y = (case get_column df vehicle_year of None \<Rightarrow> 0
                 | Some c \<Rightarrow> length (filter (is_invalid_year ev) (cells c)));
            s = (case get_column df speed_limit of None \<Rightarrow> 0
                 | Some c \<Rightarrow> length (filter is_negative (cells c)))
        in scores r ''accuracy'' =
             Some (max 0 (100 * (1 - of_nat (f + y + s) / of_nat (nrows df * 3)))) \<and>
           filter (\<lambda>m. take 6 m = ''Detect'') (summary r) =
             (if 0 < f then [future_msg f] else []) @
             (if 0 < y then [years_msg y (current_year ev + 1)] else []) @
             (if 0 < s then [speed_msg s] else [])"
    unfolding sc fl accuracy_score_def accuracy_issue_total_def accuracy_findings_def
              issue_finding_def future_count_def year_count_def speed_count_def count_in_def
              Let_def
    by (rule conjI) (rule refl)+
qed

theorem accuracy_score_formula_witness:
  "wf_table demo_table \<and> \<not> df_empty demo_table \<and> audit_ready demo_env demo_table \<and>
   (\<exists>r. run_audit demo_env demo_table = Inr r \<and>
        scores r ''accuracy'' = Some (200 / 3) \<and>
        filter (\<lambda>m. take 6 m = ''Detect'') (summary r) = [future_msg 1, speed_msg 1])"
proof -
  note h = accuracy_score_formula [OF demo_table_wf demo_table_nonempty, of demo_env]
  have "\<exists>r. run_audit demo_env demo_table = Inr r"
    using conjunct1 [OF h] demo_table_ready by (rule mp)
  then obtain r where r: "run_audit demo_env demo_table = Inr r" ..
  note c = mp [OF spec [OF conjunct2 [OF h], of r] r]
  have e: "scores r ''accuracy'' = Some (200 / 3) \<and>
           filter (\<lambda>m. take 6 m = ''Detect'') (summary r) = [future_msg 1, speed_msg 1]"
    using c
    by (simp add: get_column_def demo_table_def demo_env_def demo_now_def crash_date_def
                  vehicle_year_def speed_limit_def is_future_def is_negative_def
                  ts_less_def ts_fields_def Let_def)
  show ?thesis
    using demo_table_wf demo_table_nonempty demo_table_ready r e
    by (intro conjI exI [of _ r]) (elim conjE, assumption)+
qed

lemma count_in_le: "wf_table df \<Longrightarrow> count_in df name p \<le> nrows df"
proof (cases "get_column df name")
  case None
  then show ?thesis by (simp add: count_in_def)
next
  case (Some c)
  assume "wf_table df"
  then have "length (cells c) = nrows df" using Some by (rule wf_column_length)
  moreover have "length (filter p (cells c)) \<le> length (cells c)" by (rule length_filter_le)
  ultimately show ?thesis using Some by (simp add: count_in_def)
qed

lemma accuracy_issue_total_le: "wf_table df \<Longrightarrow> accuracy_issue_total ev df \<le> nrows df * 3"
  using count_in_le [of df crash_date "is_future ev"]
        count_in_le [of df vehicle_year "is_invalid_year ev"]
        count_in_le [of df speed_limit is_negative]
  by (simp add: accuracy_issue_total_def future_count_def year_count_def speed_count_def)

lemma accuracy_score_unclamped:
  assumes "wf_table df" and "0 < nrows df"
  shows "accuracy_score ev df =
           100 * (1 - of_nat (accuracy_issue_total ev df) / of_nat (nrows df * 3))"
proof -
  have "(of_nat (accuracy_issue_total ev df) :: rat) \<le> of_nat (nrows df * 3)"
    using accuracy_issue_total_le [OF assms(1), of ev] by (simp only: of_nat_le_iff)
  moreover have "(0::rat) < of_nat (nrows df * 3)" using assms(2) by simp
  ultimately have "(of_nat (accuracy_issue_total ev df) :: rat) / of_nat (nrows df * 3) \<le> 1"
    by (simp only: divide_le_eq_1_pos)
  then show ?thesis by (simp add: accuracy_score_def max_def)
qed

lemma accuracy_score_strict:
  assumes "wf_table df1" and "wf_table df2" and "0 < nrows df1" and "nrows df1 = nrows df2"
    and "accuracy_issue_total ev df1 < accuracy_issue_total ev df2"
  shows "accuracy_score ev df2 < accuracy_score ev df1"
proof -
  have pos: "(0::rat) < of_nat (nrows df2 * 3)" using assms(3,4) by simp
  have "(of_nat (accuracy_issue_total ev df1) :: rat) < of_nat (accuracy_issue_total ev df2)"
    using assms(5) by (simp only: of_nat_less_iff)
  then have "(of_nat (accuracy_issue_total ev df1) :: rat) / of_nat (nrows df2 * 3) <
             of_nat (accuracy_issue_total ev df2) / of_nat (nrows df2 * 3)"
    using pos by (rule divide_strict_right_mono)
  then show ?thesis
    using assms(3,4)
    by (simp add: accuracy_score_unclamped [OF assms(1)] accuracy_score_unclamped [OF assms(2)])
qed

text \<open>
  C5. Of two non-empty tables with the same number of rows, the one with strictly more
  out-of-range values in the three accuracy fields has the strictly smaller accuracy
  score.
\<close>

theorem accuracy_strictly_decreases:
  assumes "wf_table df1" and "wf_table df2"
    and "\<not> df_empty df1" and "\<not> df_empty df2"
    and "nrows df1 = nrows df2"
    and "accuracy_issue_total ev df1 < accuracy_issue_total ev df2"
    and "run_audit ev df1 = Inr r1" and "run_audit ev df2 = Inr r2"
  shows "\<exists>a1 a2. scores r1 ''accuracy'' = Some a1 \<and> scores r2 ''accuracy'' = Some a2 \<and>
                 a2 < a1"
proof -
  have "0 < nrows df1" using assms(3) by (simp add: df_empty_def)
  then have "accuracy_score ev df2 < accuracy_score ev df1"
    using assms(1,2,5,6) by (simp add: accuracy_score_strict)
  moreover have "scores r1 ''accuracy'' = Some (accuracy_score ev df1)"
    by (simp add: run_audit_result(1) [OF assms(7) assms(3)])
  moreover have "scores r2 ''accuracy'' = Some (accuracy_score ev df2)"
    by (simp add: run_audit_result(1) [OF assms(8) assms(4)])
  ultimately show ?thesis by blast
qed

lemma demo_table2_facts:
  "wf_table demo_table2" "\<not> df_empty demo_table2" "audit_ready demo_env demo_table2"
  by (simp_all add: wf_table_def df_empty_def audit_ready_def demo_table2_def demo_env_def
                    datetime_dtype_def get_column_def crash_date_def vehicle_year_def
                    speed_limit_def)

lemma demo_issue_totals:
  "accuracy_issue_total demo_env demo_table = 2" "accuracy_issue_total demo_env demo_table2 = 3"
  by (simp_all add: accuracy_issue_total_def future_count_def year_count_def speed_count_def
                    count_in_def get_column_def demo_table_def demo_table2_def demo_env_def
                    demo_now_def crash_date_def vehicle_year_def speed_limit_def is_future_def
                    is_negative_def ts_less_def ts_fields_def)

theorem accuracy_strictly_decreases_witness:
  "wf_table demo_table \<and> wf_table demo_table2 \<and> \<not> df_empty demo_table \<and>
   \<not> df_empty demo_table2 \<and> nrows demo_table = nrows demo_table2 \<and>
   accuracy_issue_total demo_env demo_table < accuracy_issue_total demo_env demo_table2 \<and>
   (\<exists>r1 r2. run_audit demo_env demo_table = Inr r1 \<and> run_audit demo_env demo_table2 = Inr r2 \<and>
            (\<exists>a1 a2. scores r1 ''accuracy'' = Some a1 \<and> scores r2 ''accuracy'' = Some a2 \<and>
                     a2 < a1))"
proof -
  obtain r1 where r1: "run_audit demo_env demo_table = Inr r1"
    using run_audit_total [OF demo_table_ready] ..
  obtain r2 where r2: "run_audit demo_env demo_table2 = Inr r2"
    using run_audit_total [OF demo_table2_facts(3)] ..
  have n: "nrows demo_table = nrows demo_table2"
    by (simp add: demo_table_def demo_table2_def)
  have lt: "accuracy_issue_total demo_env demo_table < accuracy_issue_total demo_env demo_table2"
    by (simp add: demo_issue_totals)
  note c = accuracy_strictly_decreases [OF demo_table_wf demo_table2_facts(1)
             demo_table_nonempty demo_table2_facts(2) n lt r1 r2]
  show ?thesis
    using demo_table_wf demo_table2_facts(1) demo_table_nonempty demo_table2_facts(2) n lt
          r1 r2 c
    by (intro conjI exI [of _ r1] exI [of _ r2]) assumption+
qed


lemma length_column_stats:
  assumes "run_audit ev df = Inr r" and "\<not> df_empty df"
  shows "length (column_stats r) = length (columns df)"
  using run_audit_result(5) [OF assms] by (metis length_map)



section \<open>Properties of the cross-field check\<close>








section \<open>Properties of imputation\<close>





lemma impute_missing_column:
  "get_column df col = None \<Longrightarrow> impute_column lib df col strategy = Inl KeyError"
  by (simp add: impute_column_def)




text \<open>
  C10. With a strategy other than \<open>Mean\<close>, \<open>Median\<close>, \<open>Mode\<close> and \<open>Drop\<close>, imputing a
  column of the table raises nothing and returns the table as it was, with the empty
  message.
\<close>

theorem unknown_strategy_is_noop:
  assumes "strategy \<notin> {''Mean'', ''Median'', ''Mode'', ''Drop''}"
    and "get_column df col = Some c"
  shows "impute_column lib df col strategy = Inr (df, '''')"
  using assms by (simp add: impute_column_def Let_def)

theorem unknown_strategy_is_noop_witness:
  "''Max'' \<notin> {''Mean'', ''Median'', ''Mode'', ''Drop''} \<and>
   get_column speed_table ''x'' =
     Some \<lparr>cname = ''x'', dtype = ''float64'', cells = [Num 30, Null, Num 50]\<rparr> \<and>
   impute_column demo_lib speed_table ''x'' ''Max'' = Inr (speed_table, '''')"
proof -
  have s: "''Max'' \<notin> {''Mean'', ''Median'', ''Mode'', ''Drop''}" by simp
  have g: "get_column speed_table ''x'' =
             Some \<lparr>cname = ''x'', dtype = ''float64'', cells = [Num 30, Null, Num 50]\<rparr>"
    by (simp add: get_column_def speed_table_def)
  from s g unknown_strategy_is_noop [OF s g, of demo_lib] show ?thesis by (intro conjI)
qed

section \<open>Properties of the cleaning engine\<close>

lemma engine_init_untouched: "d < length h \<Longrightarrow> untouched h (engine_init h d)"
  by (simp add: untouched_def engine_init_def alloc_def)

lemma engine_init_copy:
  "fst (engine_init h d) ! df_ref (snd (engine_init h d)) = h ! d"
  by (simp add: engine_init_def alloc_def)

lemma log_step_ref: "df_ref (log_step clock operation impact e) = df_ref e"
  by (simp add: log_step_def)

lemma drop_nulls_untouched:
  assumes "drop_nulls clock cols st = Inr st'" and "untouched h st"
  shows "untouched h st'"
  using assms
  by (auto simp: drop_nulls_def untouched_def Let_def split_def log_step_ref
           split: sum.splits)

lemma fill_nulls_untouched:
  assumes "fill_nulls lib clock col v st = Inr st'" and "untouched h st"
  shows "untouched h st'"
  using assms
  by (auto simp: fill_nulls_def untouched_def Let_def split_def log_step_ref
           split: option.splits)

lemma filter_by_year_untouched:
  assumes "filter_by_year clock col y st = Inr st'" and "untouched h st"
  shows "untouched h st'"
  using assms
  by (auto simp: filter_by_year_def untouched_def Let_def split_def log_step_ref alloc_def
           split: option.splits sum.splits)

lemma apply_engine_op_untouched:
  assumes "apply_engine_op lib clock op st = Inr st'" and "untouched h st"
  shows "untouched h st'"
  using assms
  by (cases op)
     (auto intro: drop_nulls_untouched fill_nulls_untouched filter_by_year_untouched)

lemma run_engine_ops_untouched:
  "untouched h st \<Longrightarrow> untouched h (fst (run_engine_ops lib clock ops st))"
proof (induction ops arbitrary: st)
  case Nil
  then show ?case by simp
next
  case (Cons op ops)
  show ?case
  proof (cases "apply_engine_op lib clock op st")
    case (Inl err)
    with Cons.prems show ?thesis by simp
  next
    case (Inr st')
    then have "untouched h st'" using Cons.prems by (rule apply_engine_op_untouched)
    then have "untouched h (fst (run_engine_ops lib clock ops st'))" by (rule Cons.IH)
    with Inr show ?thesis by simp
  qed
qed

lemma untouched_nth:
  assumes "untouched h st" and "a < length h"
  shows "fst st ! a = h ! a" and "df_ref (snd st) \<noteq> a"
proof -
  from assms(1) have t: "take (length h) (fst st) = h" and r: "length h \<le> df_ref (snd st)"
    by (simp_all add: untouched_def)
  from assms(2) have "take (length h) (fst st) ! a = fst st ! a" by simp
  with t show "fst st ! a = h ! a" by simp
  from r assms(2) show "df_ref (snd st) \<noteq> a" by simp
qed

text \<open>
  C9. An engine built on the frame at address \<open>d\<close> works on a new object holding a copy
  of that frame. After any sequence of \<open>drop_nulls\<close>, \<open>fill_nulls\<close> and
  \<open>filter_by_year\<close>, whether it ends normally or by an exception, the frame at \<open>d\<close> (and
  every other object that existed before) is what it was, and the engine's own frame
  is at another address.
\<close>

theorem engine_leaves_original_unchanged:
  assumes "d < length h"
  shows "fst (engine_init h d) ! df_ref (snd (engine_init h d)) = h ! d \<and>
         df_ref (snd (engine_init h d)) \<noteq> d \<and>
         (let st = fst (run_engine_ops lib clock ops (engine_init h d))
          in fst st ! d = h ! d \<and> df_ref (snd st) \<noteq> d \<and>
             (\<forall>a < length h. fst st ! a = h ! a))"
proof -
  have i: "untouched h (engine_init h d)" using assms by (rule engine_init_untouched)
  then have u: "untouched h (fst (run_engine_ops lib clock ops (engine_init h d)))"
    by (rule run_engine_ops_untouched)
  show ?thesis
    unfolding Let_def
    using engine_init_copy [of h d] untouched_nth(2) [OF i assms]
          untouched_nth(1) [OF u assms] untouched_nth(2) [OF u assms] untouched_nth(1) [OF u]
    by (intro conjI allI impI) assumption+
qed

theorem engine_leaves_original_unchanged_witness:
  "(0::nat) < length [speed_table] \<and>
   (let st = fst (run_engine_ops demo_lib demo_clock
                    [FillNulls ''x'' (Num 0), FilterByYear ''x'' 40, DropNulls [''x'']]
                    (engine_init [speed_table] 0))
    in fst st ! 0 = speed_table \<and> df_ref (snd st) \<noteq> 0)"
proof -
  have l: "(0::nat) < length [speed_table]" by simp
  note h = engine_leaves_original_unchanged [OF l, of demo_lib demo_clock
             "[FillNulls ''x'' (Num 0), FilterByYear ''x'' 40, DropNulls [''x'']]"]
  from conjunct2 [OF conjunct2 [OF h]]
  have "let st = fst (run_engine_ops demo_lib demo_clock
                    [FillNulls ''x'' (Num 0), FilterByYear ''x'' 40, DropNulls [''x'']]
                    (engine_init [speed_table] 0))
        in fst st ! 0 = speed_table \<and> df_ref (snd st) \<noteq> 0"
    unfolding Let_def by (elim conjE) (intro conjI, simp, assumption)
  with l show ?thesis by (rule conjI)
qed

lemma engine_frame_changes:
  "fst (run_engine_ops demo_lib demo_clock
          [FillNulls ''x'' (Num 0), FilterByYear ''x'' 40, DropNulls [''x'']]
          (engine_init [speed_table] 0)) =
   ([speed_table,
     \<lparr>nrows = 3, columns =
        [\<lparr>cname = ''x'', dtype = ''float64'', cells = [Num 30, Num 0, Num 50]\<rparr>]\<rparr>,
     \<lparr>nrows = 1, columns =
        [\<lparr>cname = ''x'', dtype = ''float64'', cells = [Num 50]\<rparr>]\<rparr>],
    \<lparr>df_ref = 2,
     history =
       [\<lparr>log_timestamp = ''2024-03-05 07:08:09'', log_operation = ''Fill Nulls in x'',
         log_impact = ''Filled 1 values with '' @ quoted '''' @ ''.''\<rparr>,
        \<lparr>log_timestamp = ''2024-03-05 07:08:09'', log_operation = ''Filter x >= 40'',
         log_impact = ''Removed 2 rows.''\<rparr>,
        \<lparr>log_timestamp = ''2024-03-05 07:08:09'', log_operation = ''Drop Nulls in x'',
         log_impact = ''Removed 0 rows.''\<rparr>]\<rparr>)"
  by (simp add: engine_init_def alloc_def fill_nulls_def filter_by_year_def drop_nulls_def
                log_step_def speed_table_def get_column_def set_column_def fillna_def
                select_rows_def sum_bool_def isnull_def demo_lib_def demo_clock_def
                show_int_def digit_def Let_def)

end
